theory Spec2Isabelle
  imports Complex_Main
begin

section \<open>Data model\<close>

text \<open>
  Python values as they travel through the client: the documents returned by
  \<^verbatim>\<open>response.json()\<close>, the field values of a request model and the dictionaries
  produced by \<^verbatim>\<open>.dict()\<close>. \<open>PModel\<close> is a pydantic model instance with its fields
  in declaration order. Floats do not occur in the request models the executor is
  given by the endpoint functions modelled here and are left out.
\<close>

datatype pyval =
    PNone
  | PBool bool
  | PInt int
  | PStr string
  | PList "pyval list"
  | PDict "(string \<times> pyval) list"
  | PModel "(string \<times> pyval) list"

text \<open>
  The exceptions that can leave the request path. The message strings of the
  source (f-strings over \<^verbatim>\<open>str(e)\<close> and the response document) are not modelled;
  where the source builds \<^verbatim>\<open>ManyChatAPIError\<close> at three places, \<open>api_cause\<close>
  tells them apart. \<open>SettingsError\<close> is the validation error of the settings class,
  with the names of the fields it rejects.
\<close>

datatype api_cause = StatusFailure | RequestFailed | TimedOut

datatype error =
    ManyChatAPIError api_cause "int option" "pyval option"
  | ManyChatAuthError
  | ManyChatRateLimitError "int option"
  | ManyChatValidationError
  | ClientError
  | TimeoutError
  | ValueError
  | OverflowError
  | AttributeError string
  | TypeError
  | SettingsError "string list"

text \<open>\<^verbatim>\<open>ManyChatError.status_code\<close> as the constructors of \<^verbatim>\<open>_exceptions.py\<close> set it.\<close>

fun status_code :: "error \<Rightarrow> int option" where
  "status_code (ManyChatAPIError c s r) = s"
| "status_code ManyChatAuthError = Some 401"
| "status_code (ManyChatRateLimitError ra) = Some 429"
| "status_code ManyChatValidationError = Some 400"
| "status_code _ = None"

fun retry_after :: "error \<Rightarrow> int option" where
  "retry_after (ManyChatRateLimitError ra) = ra"
| "retry_after _ = None"

section \<open>Configuration\<close>

record ManyChatConfig =
  api_key :: string
  api_version :: string
  base_url :: string
  timeout :: int
  max_retries :: int
  retry_delay :: rat
  rate_limit :: int
  rate_window :: int
  log_level :: string
  debug :: bool
  webhook_secret :: "string option"
  cache_ttl :: int

text \<open>
  What the settings sources (keyword arguments, the environment, the .env file)
  hold for one field: nothing, a value that is or can be coerced to the field's type
  (given here after coercion), or a value that cannot, such as the environment string
  \<^verbatim>\<open>abc\<close> for an integer field.
\<close>

datatype 'a field_input = Absent | Valid 'a | Invalid

record settings_input =
  in_api_key :: "string field_input"
  in_api_version :: "string field_input"
  in_base_url :: "string field_input"
  in_timeout :: "int field_input"
  in_max_retries :: "int field_input"
  in_retry_delay :: "rat field_input"
  in_rate_limit :: "int field_input"
  in_rate_window :: "int field_input"
  in_log_level :: "string field_input"
  in_debug :: "bool field_input"
  in_webhook_secret :: "string option field_input"
  in_cache_ttl :: "int field_input"

text \<open>The value of a field with a default.\<close>

fun or_default :: "'a field_input \<Rightarrow> 'a \<Rightarrow> 'a" where
  "or_default (Valid x) d = x"
| "or_default Absent d = d"
| "or_default Invalid d = d"

text \<open>The complaint about a required field, and about a field with a default.\<close>

fun required :: "string \<Rightarrow> 'a field_input \<Rightarrow> string list" where
  "required name (Valid x) = []"
| "required name Absent = [name]"
| "required name Invalid = [name]"

fun optional :: "string \<Rightarrow> 'a field_input \<Rightarrow> string list" where
  "optional name Invalid = [name]"
| "optional name (Valid x) = []"
| "optional name Absent = []"

definition rejected_fields :: "settings_input \<Rightarrow> string list" where
  "rejected_fields i =
     required ''api_key'' (in_api_key i) @
     optional ''api_version'' (in_api_version i) @
     optional ''base_url'' (in_base_url i) @
     optional ''timeout'' (in_timeout i) @
     optional ''max_retries'' (in_max_retries i) @
     optional ''retry_delay'' (in_retry_delay i) @
     optional ''rate_limit'' (in_rate_limit i) @
     optional ''rate_window'' (in_rate_window i) @
     optional ''log_level'' (in_log_level i) @
     optional ''debug'' (in_debug i) @
     optional ''webhook_secret'' (in_webhook_secret i) @
     optional ''cache_ttl'' (in_cache_ttl i)"

text \<open>
  \<^verbatim>\<open>ManyChatConfig(...)\<close>: \<^verbatim>\<open>api_key\<close> is the only required field
  (\<^verbatim>\<open>Field(...)\<close>); every other field has a default, and no field has a validator
  or a bound. Construction fails when a required field is missing or a supplied
  value does not fit its field's type.
\<close>

definition ManyChatConfig_init :: "settings_input \<Rightarrow> error + ManyChatConfig" where
  "ManyChatConfig_init i =
     (if rejected_fields i \<noteq> [] then Inl (SettingsError (rejected_fields i))
      else Inr \<lparr>
          api_key = or_default (in_api_key i) '''',
          api_version = or_default (in_api_version i) ''v1'',
          base_url = or_default (in_base_url i) ''https://api.manychat.com/fb'',
          timeout = or_default (in_timeout i) 30,
          max_retries = or_default (in_max_retries i) 3,
          retry_delay = or_default (in_retry_delay i) 1,
          rate_limit = or_default (in_rate_limit i) 100,
          rate_window = or_default (in_rate_window i) 60,
          log_level = or_default (in_log_level i) ''INFO'',
          debug = or_default (in_debug i) False,
          webhook_secret = or_default (in_webhook_secret i) None,
          cache_ttl = or_default (in_cache_ttl i) 300 \<rparr>)"

text \<open>Some supplied value does not fit the type of its field.\<close>

definition uncoercible :: "settings_input \<Rightarrow> bool" where
  "uncoercible i =
     (in_api_key i = Invalid \<or> in_api_version i = Invalid \<or> in_base_url i = Invalid \<or>
      in_timeout i = Invalid \<or> in_max_retries i = Invalid \<or> in_retry_delay i = Invalid \<or>
      in_rate_limit i = Invalid \<or> in_rate_window i = Invalid \<or> in_log_level i = Invalid \<or>
      in_debug i = Invalid \<or> in_webhook_secret i = Invalid \<or> in_cache_ttl i = Invalid)"

definition api_url :: "ManyChatConfig \<Rightarrow> string" where
  "api_url c = base_url c @ ''/'' @ api_version c"

section \<open>Double-precision arithmetic\<close>

text \<open>
  A Python float is modelled by the rational number it denotes. \<open>nearest_double\<close>
  rounds a rational to the nearest double (53 significant bits, ties to the even
  significand, subnormals below \<open>2 powi (- 1022)\<close>); \<open>None\<close> is a magnitude beyond
  the largest double.
\<close>

function bit_length :: "int \<Rightarrow> nat" where
  "bit_length n = (if n \<le> 0 then 0 else Suc (bit_length (n div 2)))"
  by pat_completeness auto
termination
  by (relation "measure nat") auto

declare bit_length.simps [simp del]

definition round_half_even :: "rat \<Rightarrow> int" where
  "round_half_even x =
     (let f = \<lfloor>x\<rfloor>; r = x - of_int f
      in if r < 1 / 2 then f else if 1 / 2 < r then f + 1 else if even f then f else f + 1)"

text \<open>For a positive \<open>q\<close>, the exponent \<open>e\<close> with \<open>2 powi e \<le> q < 2 powi (e + 1)\<close>.\<close>

definition binade :: "rat \<Rightarrow> int" where
  "binade q =
     (let a = fst (quotient_of q); b = snd (quotient_of q);
          e0 = int (bit_length a) - int (bit_length b)
      in if 2 powi e0 \<le> q then e0 else e0 - 1)"

definition nearest_double :: "rat \<Rightarrow> rat option" where
  "nearest_double q =
     (if q = 0 then Some 0
      else
        let e = max (binade \<bar>q\<bar>) (- 1022);
            u = 2 powi (e - 52);
            v = of_int (round_half_even (\<bar>q\<bar> / u)) * u
        in if 2 powi 1024 \<le> v then None else Some (if q < 0 then - v else v))"

text \<open>\<^verbatim>\<open>a / b\<close> on Python integers, for a divisor that is not zero: the quotient,
  correctly rounded, or \<^verbatim>\<open>OverflowError\<close>.\<close>

definition int_truediv :: "int \<Rightarrow> int \<Rightarrow> error + rat" where
  "int_truediv a b =
     (case nearest_double (of_int a / of_int b) of
        None \<Rightarrow> Inl OverflowError
      | Some v \<Rightarrow> Inr v)"

text \<open>The sum, difference and product of floats whose result is finite (as it is
  when one is added to or taken from a double).\<close>

definition float_add :: "rat \<Rightarrow> rat \<Rightarrow> rat" where
  "float_add x y = (case nearest_double (x + y) of Some v \<Rightarrow> v | None \<Rightarrow> x + y)"

definition float_sub :: "rat \<Rightarrow> rat \<Rightarrow> rat" where
  "float_sub x y = (case nearest_double (x - y) of Some v \<Rightarrow> v | None \<Rightarrow> x - y)"

definition float_mul :: "rat \<Rightarrow> rat \<Rightarrow> rat" where
  "float_mul x y = (case nearest_double (x * y) of Some v \<Rightarrow> v | None \<Rightarrow> x * y)"

section \<open>Client state\<close>

text \<open>
  The \<^verbatim>\<open>aiohttp.ClientSession\<close> as far as the client uses it: its default headers,
  its total timeout, whether it raises for error statuses, and whether it is closed.
\<close>

record ClientSession =
  headers :: "(string \<times> string) list"
  total_timeout :: int
  raise_for_status :: bool
  closed :: bool

text \<open>
  \<^verbatim>\<open>ManyChatClient\<close>: the attributes \<^verbatim>\<open>config\<close>, \<^verbatim>\<open>_session\<close>,
  \<^verbatim>\<open>_rate_limit_semaphore\<close> (the semaphore's internal value) and
  \<^verbatim>\<open>_last_request_time\<close>, the two floats as the rationals they denote.
  \<open>sdk_version\<close> is the package constant \<^verbatim>\<open>__version__\<close>, which the sources do
  not contain.
\<close>

record ManyChatClient =
  config :: ManyChatConfig
  session :: "ClientSession option"
  rate_limit_semaphore :: rat
  last_request_time :: rat
  sdk_version :: string

text \<open>
  \<^verbatim>\<open>asyncio.Semaphore(value)\<close> raises \<^verbatim>\<open>ValueError\<close> for a negative value and
  stores any other value as it is given.
\<close>

definition Semaphore :: "rat \<Rightarrow> error + rat" where
  "Semaphore v = (if v < 0 then Inl ValueError else Inr v)"

text \<open>
  \<^verbatim>\<open>ManyChatClient.__init__\<close>. \<open>from_env\<close> is the result of \<^verbatim>\<open>ManyChatConfig()\<close>,
  used when no configuration is passed.
\<close>

definition ManyChatClient_init ::
  "string \<Rightarrow> error + ManyChatConfig \<Rightarrow> ManyChatConfig option \<Rightarrow> error + ManyChatClient" where
  "ManyChatClient_init ver from_env cfg =
     (case (case cfg of Some c \<Rightarrow> Inr c | None \<Rightarrow> from_env) of
        Inl e \<Rightarrow> Inl e
      | Inr c \<Rightarrow>
          (case int_truediv (rate_limit c) 60 of
             Inl e \<Rightarrow> Inl e
           | Inr q \<Rightarrow>
               (case Semaphore q of
                  Inl e \<Rightarrow> Inl e
                | Inr v \<Rightarrow> Inr \<lparr> config = c, session = None, rate_limit_semaphore = v,
                                 last_request_time = 0, sdk_version = ver \<rparr>)))"

definition session_unusable :: "ManyChatClient \<Rightarrow> bool" where
  "session_unusable c = (case session c of None \<Rightarrow> True | Some s \<Rightarrow> closed s)"

text \<open>\<^verbatim>\<open>start\<close>: a new session replaces a missing or closed one.\<close>

definition start :: "ManyChatClient \<Rightarrow> ManyChatClient" where
  "start c =
     (if session_unusable c then
        c\<lparr> session := Some \<lparr>
             headers = [(''User-Agent'', ''ManyChat-Python-SDK/'' @ sdk_version c),
                        (''Accept'', ''application/json''),
                        (''Content-Type'', ''application/json''),
                        (''Authorization'', ''Bearer '' @ api_key (config c))],
             total_timeout = timeout (config c),
             raise_for_status = True,
             closed = False \<rparr> \<rparr>
      else c)"

definition close :: "ManyChatClient \<Rightarrow> ManyChatClient" where
  "close c =
     (case session c of
        None \<Rightarrow> c
      | Some s \<Rightarrow> if closed s then c else c\<lparr> session := Some (s\<lparr> closed := True \<rparr>) \<rparr>)"

definition ensure :: "ManyChatClient \<Rightarrow> ManyChatClient" where
  "ensure c = (if session_unusable c then start c else c)"

text \<open>A client whose session is the one \<open>start\<close> creates for it.\<close>

definition started :: "ManyChatClient \<Rightarrow> bool" where
  "started c = (session c = session (start (c\<lparr> session := None \<rparr>)))"

section \<open>The world outside the client\<close>

text \<open>
  What one attempt meets: the two readings of the event loop's clock in the rate
  limiter, the outcome of the HTTP exchange, and the draw of \<^verbatim>\<open>random.random()\<close>
  behind \<^verbatim>\<open>random.uniform\<close> for the backoff after it.
\<close>

datatype json_result = JsonOk pyval | ContentTypeError | JSONDecodeError

datatype http_outcome =
    Response int "(string \<times> string) list" json_result
  | TransportError
  | TransportTimeout

record attempt_env =
  now :: rat
  later :: rat
  outcome :: http_outcome
  jitter :: rat

record sent_request =
  sent_method :: string
  sent_base :: string
  sent_endpoint :: string
  sent_headers :: "(string \<times> string) list"
  sent_json :: "pyval option"

text \<open>
  The observable world: the requests handed to the session (oldest first) and the
  backoff sleeps taken (oldest first).
\<close>

record world =
  sent :: "sent_request list"
  backoff_sleeps :: "rat list"

section \<open>Rate limiter\<close>

text \<open>
  The semaphore: \<^verbatim>\<open>acquire\<close> waits while the value is zero and otherwise takes one
  from it; \<^verbatim>\<open>release\<close> adds one. \<open>gate_round\<close> is the value a task that entered and
  left the block leaves behind, and \<open>gate_open n\<close> holds of a value that lets \<open>n\<close>
  such tasks pass one after the other.
\<close>

definition gate_round :: "rat \<Rightarrow> rat" where
  "gate_round v = float_add (float_sub v 1) 1"

fun gate_open :: "nat \<Rightarrow> rat \<Rightarrow> bool" where
  "gate_open 0 v = True"
| "gate_open (Suc n) v = (v \<noteq> 0 \<and> gate_open n (gate_round v))"

text \<open>
  \<^verbatim>\<open>_enforce_rate_limit\<close>, with the two clock readings \<open>t1\<close> and \<open>t2\<close>. The result is
  \<open>None\<close> when the step never returns, and otherwise the duration passed to
  \<^verbatim>\<open>asyncio.sleep\<close> (if it was called) and the client afterwards.
\<close>

definition enforce_rate_limit ::
  "rat \<Rightarrow> rat \<Rightarrow> ManyChatClient \<Rightarrow> (rat option \<times> ManyChatClient) option" where
  "enforce_rate_limit t1 t2 c =
     (if rate_limit_semaphore c = 0 then None
      else
        let elapsed = float_sub t1 (last_request_time c);
            d = (if elapsed < 1 then Some (float_sub 1 elapsed) else None)
        in Some (d, c\<lparr> last_request_time := t2,
                       rate_limit_semaphore := gate_round (rate_limit_semaphore c) \<rparr>))"

section \<open>Serialising the request body\<close>

text \<open>
  \<^verbatim>\<open>model.dict(exclude_none=True)\<close>: a field whose value is \<^verbatim>\<open>None\<close> is skipped,
  a nested model is converted the same way, and lists and dictionaries are converted
  element by element (their \<^verbatim>\<open>None\<close> elements stay). Keys are the field names.
\<close>

fun get_value :: "pyval \<Rightarrow> pyval"
  and get_values :: "pyval list \<Rightarrow> pyval list"
  and get_items :: "(string \<times> pyval) list \<Rightarrow> (string \<times> pyval) list"
  and iter_fields :: "(string \<times> pyval) list \<Rightarrow> (string \<times> pyval) list" where
  "get_value PNone = PNone"
| "get_value (PBool b) = PBool b"
| "get_value (PInt i) = PInt i"
| "get_value (PStr s) = PStr s"
| "get_value (PList vs) = PList (get_values vs)"
| "get_value (PDict kvs) = PDict (get_items kvs)"
| "get_value (PModel fs) = PDict (iter_fields fs)"
| "get_values [] = []"
| "get_values (v # vs) = get_value v # get_values vs"
| "get_items [] = []"
| "get_items ((k, v) # kvs) = (k, get_value v) # get_items kvs"
| "iter_fields [] = []"
| "iter_fields ((k, v) # fs) =
     (if v = PNone then iter_fields fs else (k, get_value v) # iter_fields fs)"

definition dict_exclude_none :: "(string \<times> pyval) list \<Rightarrow> pyval" where
  "dict_exclude_none fs = PDict (iter_fields fs)"


section \<open>Reading the Retry-After header\<close>

definition lower_char :: "char \<Rightarrow> char" where
  "lower_char c =
     (let n = (of_char c :: nat) in if 65 \<le> n \<and> n \<le> 90 then char_of (n + 32) else c)"

text \<open>The response headers are a case-insensitive multi-dictionary; \<^verbatim>\<open>get\<close> returns
  the first value stored under the key.\<close>

fun headers_get :: "(string \<times> string) list \<Rightarrow> string \<Rightarrow> string option" where
  "headers_get [] k = None"
| "headers_get ((k', v) # hs) k =
     (if map lower_char k' = map lower_char k then Some v else headers_get hs k)"

text \<open>
  Python's \<^verbatim>\<open>int(s)\<close> on a string of ASCII characters: surrounding whitespace is
  dropped, one sign is allowed, and the digits may be separated by single underscores.
  \<open>None\<close> stands for the \<^verbatim>\<open>ValueError\<close> it raises.
\<close>

definition is_space :: "char \<Rightarrow> bool" where
  "is_space c = (let n = (of_char c :: nat) in (9 \<le> n \<and> n \<le> 13) \<or> n = 32)"

definition is_digit :: "char \<Rightarrow> bool" where
  "is_digit c = (let n = (of_char c :: nat) in 48 \<le> n \<and> n \<le> 57)"

definition digit_val :: "char \<Rightarrow> nat" where
  "digit_val c = of_char c - 48"

definition strip :: "string \<Rightarrow> string" where
  "strip s = rev (dropWhile is_space (rev (dropWhile is_space s)))"

fun parse_digits :: "nat \<Rightarrow> string \<Rightarrow> nat option" where
  "parse_digits acc [] = Some acc"
| "parse_digits acc [c] = (if is_digit c then Some (10 * acc + digit_val c) else None)"
| "parse_digits acc (c # d # cs) =
     (if is_digit c then parse_digits (10 * acc + digit_val c) (d # cs)
      else if c = CHR ''_'' \<and> is_digit d then parse_digits (10 * acc + digit_val d) cs
      else None)"

definition parse_unsigned :: "string \<Rightarrow> nat option" where
  "parse_unsigned s =
     (case s of [] \<Rightarrow> None
      | c # cs \<Rightarrow> if is_digit c then parse_digits (digit_val c) cs else None)"

text \<open>A string with more than 4300 digits is refused (the default limit of the
  interpreter on the conversion of decimal strings).\<close>

definition py_int :: "string \<Rightarrow> int option" where
  "py_int s =
     (if 4300 < length (filter is_digit s) then None
      else
        (case strip s of
           [] \<Rightarrow> None
         | c # cs \<Rightarrow>
             if c = CHR ''-'' then map_option (\<lambda>n. - int n) (parse_unsigned cs)
             else if c = CHR ''+'' then map_option int (parse_unsigned cs)
             else map_option int (parse_unsigned (c # cs))))"

text \<open>\<^verbatim>\<open>int(response.headers.get("Retry-After", 60))\<close>.\<close>

definition retry_after_of :: "(string \<times> string) list \<Rightarrow> error + int" where
  "retry_after_of hs =
     (case headers_get hs ''Retry-After'' of
        None \<Rightarrow> Inr 60
      | Some v \<Rightarrow> (case py_int v of None \<Rightarrow> Inl ValueError | Some n \<Rightarrow> Inr n))"


section \<open>Request executor\<close>

text \<open>
  \<^verbatim>\<open>self._session.request(...)\<close>: a transport failure or a timeout raises; so does a
  response with an error status when the session was created with
  \<^verbatim>\<open>raise_for_status=True\<close> (the \<^verbatim>\<open>ClientResponseError\<close> it raises is a
  \<^verbatim>\<open>ClientError\<close>).
\<close>

definition session_request ::
  "ClientSession \<Rightarrow> http_outcome \<Rightarrow> error + (int \<times> (string \<times> string) list \<times> json_result)" where
  "session_request s out =
     (case out of
        TransportError \<Rightarrow> Inl ClientError
      | TransportTimeout \<Rightarrow> Inl TimeoutError
      | Response st hs b \<Rightarrow>
          if raise_for_status s \<and> 400 \<le> st then Inl ClientError else Inr (st, hs, b))"

text \<open>\<^verbatim>\<open>await response.json()\<close>: \<^verbatim>\<open>ContentTypeError\<close> is a \<^verbatim>\<open>ClientError\<close>,
  \<^verbatim>\<open>JSONDecodeError\<close> a \<^verbatim>\<open>ValueError\<close>.\<close>

definition response_json :: "json_result \<Rightarrow> error + pyval" where
  "response_json b =
     (case b of JsonOk d \<Rightarrow> Inr d
      | ContentTypeError \<Rightarrow> Inl ClientError
      | JSONDecodeError \<Rightarrow> Inl ValueError)"

text \<open>Lines 160 to 181 of \<^verbatim>\<open>client.py\<close>: the status checks and the parse of the body
  by the response model \<open>rm\<close> (\<open>None\<close> is its \<^verbatim>\<open>ValidationError\<close>).\<close>

definition handle_response ::
  "(pyval \<Rightarrow> 'a option) \<Rightarrow> int \<Rightarrow> (string \<times> string) list \<Rightarrow> pyval \<Rightarrow> error + 'a" where
  "handle_response rm st hs d =
     (if 400 \<le> st then
        (if st = 401 then Inl ManyChatAuthError
         else if st = 429 then
           (case retry_after_of hs of
              Inl e \<Rightarrow> Inl e
            | Inr n \<Rightarrow> Inl (ManyChatRateLimitError (Some n)))
         else Inl (ManyChatAPIError StatusFailure (Some st) (Some d)))
      else
        (case rm d of
           None \<Rightarrow> Inl ManyChatValidationError
         | Some v \<Rightarrow> Inr v))"

text \<open>The two \<^verbatim>\<open>except\<close> clauses around the exchange.\<close>

definition except_clauses :: "error + 'a \<Rightarrow> error + 'a" where
  "except_clauses r =
     (case r of
        Inl ClientError \<Rightarrow> Inl (ManyChatAPIError RequestFailed None None)
      | Inl TimeoutError \<Rightarrow> Inl (ManyChatAPIError TimedOut None None)
      | _ \<Rightarrow> r)"

definition exchange ::
  "(pyval \<Rightarrow> 'a option) \<Rightarrow> ClientSession \<Rightarrow> http_outcome \<Rightarrow> error + 'a" where
  "exchange rm s out =
     except_clauses
       (case session_request s out of
          Inl e \<Rightarrow> Inl e
        | Inr (st, hs, b) \<Rightarrow>
            (case response_json b of
               Inl e \<Rightarrow> Inl e
             | Inr d \<Rightarrow> handle_response rm st hs d))"

text \<open>
  The body of \<^verbatim>\<open>_request\<close>, one attempt. \<open>None\<close>: the attempt never returns
  (it waits for the semaphore for ever).
\<close>

definition request_body ::
  "(pyval \<Rightarrow> 'a option) \<Rightarrow> string \<Rightarrow> string \<Rightarrow> (string \<times> pyval) list option \<Rightarrow>
   attempt_env \<Rightarrow> ManyChatClient \<Rightarrow> world \<Rightarrow> ((error + 'a) \<times> ManyChatClient \<times> world) option" where
  "request_body rm method endpoint request_data e c0 w =
     (let c = (if session_unusable c0 then start c0 else c0);
          json_data = map_option dict_exclude_none request_data
      in case enforce_rate_limit (now e) (later e) c of
           None \<Rightarrow> None
         | Some (d, c') \<Rightarrow>
             (case session c' of
                None \<Rightarrow> Some (Inl (AttributeError ''request''), c', w)
              | Some s \<Rightarrow>
                  Some (exchange rm s (outcome e), c',
                        w\<lparr> sent := sent w @ [\<lparr> sent_method = method,
                                                sent_base = api_url (config c'),
                                                sent_endpoint = endpoint,
                                                sent_headers = headers s,
                                                sent_json = json_data \<rparr>] \<rparr>)))"

text \<open>
  The decorator \<^verbatim>\<open>backoff.on_exception(backoff.expo, (ClientError, TimeoutError,
  ManyChatRateLimitError), max_tries=3, jitter=backoff.full_jitter)\<close>.
\<close>

definition max_tries :: nat where
  "max_tries = 3"

fun retryable :: "error \<Rightarrow> bool" where
  "retryable ClientError = True"
| "retryable TimeoutError = True"
| "retryable (ManyChatRateLimitError ra) = True"
| "retryable _ = False"

text \<open>\<^verbatim>\<open>backoff.expo\<close> with base 2 and factor 1: the value for the wait after the
  \<open>n\<close>-th failure (counted from 0).\<close>

definition expo :: "nat \<Rightarrow> int" where
  "expo n = 2 ^ n"

text \<open>\<^verbatim>\<open>backoff.full_jitter\<close>: \<^verbatim>\<open>random.uniform(0, value)\<close>, that is
  \<^verbatim>\<open>0 + (value - 0) * random()\<close> in floats, with the draw \<open>u\<close>.\<close>

definition full_jitter :: "rat \<Rightarrow> int \<Rightarrow> rat" where
  "full_jitter u v = float_add 0 (float_mul (of_int (v - 0)) u)"

definition gives_up :: "nat \<Rightarrow> ((error + 'a) \<times> ManyChatClient \<times> world) \<Rightarrow> bool" where
  "gives_up tries r =
     (case fst r of Inr v \<Rightarrow> True | Inl e \<Rightarrow> if retryable e then max_tries \<le> tries else True)"

text \<open>
  The retry loop of the decorator; \<open>tries\<close> is the number of attempts made before
  this one and \<open>env\<close> gives what each attempt meets. The source stops at
  \<^verbatim>\<open>tries == max_tries\<close>; counting up from 0 in steps of one, that is the first time
  \<open>max_tries \<le> tries\<close> holds.
\<close>

function retry ::
  "(pyval \<Rightarrow> 'a option) \<Rightarrow> string \<Rightarrow> string \<Rightarrow> (string \<times> pyval) list option \<Rightarrow>
   (nat \<Rightarrow> attempt_env) \<Rightarrow> nat \<Rightarrow> ManyChatClient \<Rightarrow> world \<Rightarrow>
   ((error + 'a) \<times> ManyChatClient \<times> world) option" where
  "retry rm method endpoint request_data env tries c w =
     (case request_body rm method endpoint request_data (env tries) c w of
        None \<Rightarrow> None
      | Some r \<Rightarrow>
          if gives_up (Suc tries) r then Some r
          else
            let seconds = full_jitter (jitter (env tries)) (expo tries);
                w' = snd (snd r)
            in retry rm method endpoint request_data env (Suc tries) (fst (snd r))
                 (w'\<lparr> backoff_sleeps := backoff_sleeps w' @ [seconds] \<rparr>))"
  by pat_completeness auto
termination
  by (relation "measure (\<lambda>(rm, method, endpoint, request_data, env, tries, c, w). max_tries - tries)")
     (auto simp: gives_up_def split: sum.splits if_splits)

declare retry.simps [simp del]

text \<open>\<^verbatim>\<open>ManyChatClient._request\<close> as callers see it, with its decorator.\<close>

definition request ::
  "(pyval \<Rightarrow> 'a option) \<Rightarrow> string \<Rightarrow> string \<Rightarrow> (string \<times> pyval) list option \<Rightarrow>
   (nat \<Rightarrow> attempt_env) \<Rightarrow> ManyChatClient \<Rightarrow> world \<Rightarrow>
   ((error + 'a) \<times> ManyChatClient \<times> world) option" where
  "request rm method endpoint request_data env c w =
     retry rm method endpoint request_data env 0 c w"

text \<open>The number of HTTP exchanges a call started: the requests it added to the world.\<close>

definition attempts :: "world \<Rightarrow> world \<Rightarrow> nat" where
  "attempts w w' = length (sent w') - length (sent w)"


section \<open>Endpoint functions\<close>

text \<open>
  The names an instance of \<^verbatim>\<open>ManyChatClient\<close> answers to: the methods the class
  defines and the attributes \<^verbatim>\<open>__init__\<close> sets. (The attributes every Python object
  inherits all begin and end with two underscores.)
\<close>

definition ManyChatClient_attributes :: "string list" where
  "ManyChatClient_attributes =
     [''__init__'', ''__aenter__'', ''__aexit__'', ''start'', ''close'',
      ''_enforce_rate_limit'', ''_request'',
      ''config'', ''_session'', ''_rate_limit_semaphore'', ''_last_request_time'']"

definition getattr :: "string \<Rightarrow> error + string" where
  "getattr name =
     (if name \<in> set ManyChatClient_attributes then Inr name else Inl (AttributeError name))"

text \<open>
  \<^verbatim>\<open>client.<name>(method=..., endpoint=..., request_data=..., response_model=...)\<close>:
  the attribute is looked up first; of the attributes of the client only
  \<^verbatim>\<open>_request\<close> takes these keyword arguments.
\<close>

definition call_method ::
  "string \<Rightarrow> (pyval \<Rightarrow> 'a option) \<Rightarrow> string \<Rightarrow> string \<Rightarrow> (string \<times> pyval) list option \<Rightarrow>
   (nat \<Rightarrow> attempt_env) \<Rightarrow> ManyChatClient \<Rightarrow> world \<Rightarrow>
   ((error + 'a) \<times> ManyChatClient \<times> world) option" where
  "call_method name rm method endpoint request_data env c w =
     (case getattr name of
        Inl e \<Rightarrow> Some (Inl e, c, w)
      | Inr n \<Rightarrow>
          if n = ''_request'' then request rm method endpoint request_data env c w
          else Some (Inl TypeError, c, w))"

text \<open>The three endpoint functions; the response model each passes
  (\<^verbatim>\<open>TagsListResponse\<close>, \<^verbatim>\<open>PageInfoResponse\<close>, \<^verbatim>\<open>SuccessResponse\<close>) is the
  parameter \<open>rm\<close>.\<close>

definition get_tags ::
  "(pyval \<Rightarrow> 'a option) \<Rightarrow> (nat \<Rightarrow> attempt_env) \<Rightarrow> ManyChatClient \<Rightarrow> world \<Rightarrow>
   ((error + 'a) \<times> ManyChatClient \<times> world) option" where
  "get_tags rm env c w = call_method ''request'' rm ''GET'' ''fb/page/getTags'' None env c w"

definition get_page_info ::
  "(pyval \<Rightarrow> 'a option) \<Rightarrow> (nat \<Rightarrow> attempt_env) \<Rightarrow> ManyChatClient \<Rightarrow> world \<Rightarrow>
   ((error + 'a) \<times> ManyChatClient \<times> world) option" where
  "get_page_info rm env c w = call_method ''request'' rm ''GET'' ''fb/page/getInfo'' None env c w"

definition AddTagByNameRequest :: "string \<Rightarrow> string \<Rightarrow> (string \<times> pyval) list" where
  "AddTagByNameRequest subscriber_id tag_name =
     [(''subscriber_id'', PStr subscriber_id), (''tag_name'', PStr tag_name)]"

definition add_tag_by_name ::
  "(pyval \<Rightarrow> 'a option) \<Rightarrow> (nat \<Rightarrow> attempt_env) \<Rightarrow> ManyChatClient \<Rightarrow> world \<Rightarrow>
   string \<Rightarrow> string \<Rightarrow> ((error + 'a) \<times> ManyChatClient \<times> world) option" where
  "add_tag_by_name rm env c w subscriber_id tag_name =
     call_method ''request'' rm ''POST'' ''fb/subscriber/addTagByName''
       (Some (AddTagByNameRequest subscriber_id tag_name)) env c w"


section \<open>Example inputs\<close>

definition default_settings :: "string \<Rightarrow> settings_input" where
  "default_settings k =
     \<lparr> in_api_key = Valid k, in_api_version = Absent, in_base_url = Absent,
       in_timeout = Absent, in_max_retries = Absent, in_retry_delay = Absent,
       in_rate_limit = Absent, in_rate_window = Absent, in_log_level = Absent,
       in_debug = Absent, in_webhook_secret = Absent, in_cache_ttl = Absent \<rparr>"

definition example_config :: ManyChatConfig where
  "example_config =
     \<lparr> api_key = ''secret'', api_version = ''v1'', base_url = ''https://api.manychat.com/fb'',
       timeout = 30, max_retries = 3, retry_delay = 1, rate_limit = 100, rate_window = 60,
       log_level = ''INFO'', debug = False, webhook_secret = None, cache_ttl = 300 \<rparr>"

text \<open>The client \<^verbatim>\<open>ManyChatClient(example_config)\<close>: the float \<^verbatim>\<open>100 / 60\<close> is
  1.6666666666666667.\<close>

definition example_client :: ManyChatClient where
  "example_client =
     \<lparr> config = example_config, session = None,
       rate_limit_semaphore = 7505999378950827 / 4503599627370496,
       last_request_time = 0, sdk_version = ''0.1.0'' \<rparr>"


definition example_world :: world where
  "example_world = \<lparr> sent = [], backoff_sleeps = [] \<rparr>"

text \<open>A server that gives the same answer to every attempt.\<close>

definition always :: "http_outcome \<Rightarrow> nat \<Rightarrow> attempt_env" where
  "always out n = \<lparr> now = 1000 + of_nat n, later = 1000 + of_nat n, outcome = out, jitter = 1 / 2 \<rparr>"

text \<open>A response model that accepts any JSON object.\<close>

definition dict_model :: "pyval \<Rightarrow> (string \<times> pyval) list option" where
  "dict_model d = (case d of PDict kvs \<Rightarrow> Some kvs | _ \<Rightarrow> None)"


section \<open>Properties\<close>

subsection \<open>What one attempt and the retry loop leave unchanged\<close>

lemma ensure_usable: "\<not> session_unusable (ensure c)"
  by (auto simp: ensure_def session_unusable_def start_def split: option.splits)

lemma ensure_idem: "\<not> session_unusable c \<Longrightarrow> ensure c = c"
  by (simp add: ensure_def)

lemma ensure_session: "\<exists>s. session (ensure c) = Some s \<and> \<not> closed s"
  using ensure_usable [of c] by (auto simp: session_unusable_def split: option.splits)

lemma ensure_fields:
  "config (ensure c) = config c" "rate_limit_semaphore (ensure c) = rate_limit_semaphore c"
  "last_request_time (ensure c) = last_request_time c" "sdk_version (ensure c) = sdk_version c"
  by (simp_all add: ensure_def start_def)

lemma start_config: "config (start c) = config c"
  by (simp add: start_def)

lemma close_config: "config (close c) = config c"
  by (simp add: close_def split: option.splits)

lemma enforce_frame:
  "enforce_rate_limit t1 t2 c = Some (d, c') \<Longrightarrow>
   c' = c\<lparr> last_request_time := t2, rate_limit_semaphore := gate_round (rate_limit_semaphore c) \<rparr>"
  by (auto simp: enforce_rate_limit_def Let_def split: if_splits)

lemma enforce_returns:
  "rate_limit_semaphore c \<noteq> 0 \<Longrightarrow> \<exists>d c'. enforce_rate_limit t1 t2 c = Some (d, c')"
  by (simp add: enforce_rate_limit_def Let_def)

lemma request_body_sent:
  assumes "request_body rm m ep rd e c w = Some (r, c', w')"
  shows "\<exists>s. session (ensure c) = Some s \<and> \<not> closed s \<and>
           r = exchange rm s (outcome e) \<and>
           sent w' = sent w @ [\<lparr> sent_method = m, sent_base = api_url (config c),
              sent_endpoint = ep, sent_headers = headers s,
              sent_json = map_option dict_exclude_none rd \<rparr>] \<and>
           backoff_sleeps w' = backoff_sleeps w \<and>
           c' = (ensure c)\<lparr> last_request_time := later e,
                  rate_limit_semaphore := gate_round (rate_limit_semaphore c) \<rparr>"
proof -
  obtain s where s: "session (ensure c) = Some s" "\<not> closed s"
    using ensure_session by blast
  from assms obtain d c1 where
    en: "enforce_rate_limit (now e) (later e) (ensure c) = Some (d, c1)"
    by (auto simp: request_body_def ensure_def Let_def split: option.splits)
  from enforce_frame [OF en] have c1: "c1 = (ensure c)\<lparr> last_request_time := later e,
      rate_limit_semaphore := gate_round (rate_limit_semaphore c) \<rparr>"
    by (simp add: ensure_fields)
  then have s1: "session c1 = Some s" "config c1 = config c"
    using s by (simp_all add: ensure_fields)
  from assms en s1 s c1 show ?thesis
    by (auto simp: request_body_def ensure_def Let_def split: option.splits)
qed

lemma request_body_returns:
  assumes "rate_limit_semaphore c \<noteq> 0"
  shows "\<exists>r c' w'. request_body rm m ep rd e c w = Some (r, c', w')"
proof -
  have "rate_limit_semaphore (ensure c) \<noteq> 0" using assms by (simp add: ensure_fields)
  from enforce_returns [OF this, of "now e" "later e"] obtain d c1 where
    en: "enforce_rate_limit (now e) (later e) (ensure c) = Some (d, c1)" by blast
  from enforce_frame [OF en] ensure_session [of c] have "\<exists>s. session c1 = Some s" by auto
  with en show ?thesis
    by (auto simp: request_body_def ensure_def Let_def split: option.splits)
qed

lemma retry_stop:
  "request_body rm m ep rd (env tries) c w = Some x \<Longrightarrow> gives_up (Suc tries) x \<Longrightarrow>
   retry rm m ep rd env tries c w = Some x"
  by (subst retry.simps) simp

lemma retry_step:
  "request_body rm m ep rd (env tries) c w = Some (r, c1, w1) \<Longrightarrow>
   \<not> gives_up (Suc tries) (r, c1, w1) \<Longrightarrow>
   retry rm m ep rd env tries c w =
     retry rm m ep rd env (Suc tries) c1
       (w1\<lparr> backoff_sleeps := backoff_sleeps w1 @ [full_jitter (jitter (env tries)) (expo tries)] \<rparr>)"
  by (subst retry.simps) (simp add: Let_def)

lemma retry_None:
  "request_body rm m ep rd (env tries) c w = None \<Longrightarrow> retry rm m ep rd env tries c w = None"
  by (subst retry.simps) simp

lemma retry_cases:
  assumes "retry rm m ep rd env tries c w = Some (r, c', w')"
  obtains (stop) "request_body rm m ep rd (env tries) c w = Some (r, c', w')"
      "gives_up (Suc tries) (r, c', w')"
  | (step) r1 c1 w1 where "request_body rm m ep rd (env tries) c w = Some (r1, c1, w1)"
      "\<not> gives_up (Suc tries) (r1, c1, w1)"
      "retry rm m ep rd env (Suc tries) c1
         (w1\<lparr> backoff_sleeps := backoff_sleeps w1 @ [full_jitter (jitter (env tries)) (expo tries)] \<rparr>) =
       Some (r, c', w')"
proof (cases "request_body rm m ep rd (env tries) c w")
  case None
  from retry_None [where env = env and tries = tries, OF None] assms show ?thesis by simp
next
  case (Some x)
  obtain r1 c1 w1 where x: "x = (r1, c1, w1)" by (cases x) auto
  show ?thesis
  proof (cases "gives_up (Suc tries) x")
    case True
    from retry_stop [where env = env and tries = tries, OF Some True] assms x
    have "(r1, c1, w1) = (r, c', w')" by simp
    with Some True x stop show ?thesis by simp
  next
    case False
    from retry_step [where env = env and tries = tries, OF Some [unfolded x] False [unfolded x]]
      assms Some x False step
    show ?thesis by simp
  qed
qed

subsection \<open>The retry loop\<close>

lemma retry_sent:
  "retry rm m ep rd env tries c w = Some (r, c', w') \<Longrightarrow>
   \<exists>s new. session (ensure c) = Some s \<and> \<not> closed s \<and> sent w' = sent w @ new \<and> new \<noteq> [] \<and>
     (\<forall>q\<in>set new. sent_method q = m \<and> sent_base q = api_url (config c) \<and>
        sent_endpoint q = ep \<and> sent_headers q = headers s \<and>
        sent_json q = map_option dict_exclude_none rd) \<and>
     session c' = Some s \<and> config c' = config c \<and> sdk_version c' = sdk_version c"
proof (induction rm m ep rd env tries c w rule: retry.induct)
  case (1 rm m ep rd env tries c w)
  from "1.prems" show ?case
  proof (cases rule: retry_cases)
    case stop
    from request_body_sent [OF stop(1)] show ?thesis
      by (auto simp: ensure_fields)
  next
    case (step r1 c1 w1)
    from request_body_sent [OF step(1)] obtain s where
      s: "session (ensure c) = Some s" "\<not> closed s"
         "sent w1 = sent w @ [\<lparr> sent_method = m, sent_base = api_url (config c),
              sent_endpoint = ep, sent_headers = headers s,
              sent_json = map_option dict_exclude_none rd \<rparr>]"
         "c1 = (ensure c)\<lparr> last_request_time := later (env tries),
                  rate_limit_semaphore := gate_round (rate_limit_semaphore c) \<rparr>"
      by blast
    have c1: "session c1 = Some s" "config c1 = config c" "sdk_version c1 = sdk_version c"
      using s(1,4) by (simp_all add: ensure_fields)
    have "\<not> session_unusable c1" using c1(1) s(2) by (simp add: session_unusable_def)
    then have e1: "ensure c1 = c1" by (rule ensure_idem)
    from "1.IH" [OF step(1) step(2) refl refl] step(3)
    obtain s' new where
      n: "session (ensure c1) = Some s'" "sent w' = sent w1 @ new"
         "\<forall>q\<in>set new. sent_method q = m \<and> sent_base q = api_url (config c1) \<and>
            sent_endpoint q = ep \<and> sent_headers q = headers s' \<and>
            sent_json q = map_option dict_exclude_none rd"
         "session c' = Some s'" "config c' = config c1" "sdk_version c' = sdk_version c1"
      by auto
    from n(1) e1 c1(1) have ss: "s' = s" by simp
    let ?q = "\<lparr> sent_method = m, sent_base = api_url (config c),
              sent_endpoint = ep, sent_headers = headers s,
              sent_json = map_option dict_exclude_none rd \<rparr>"
    have a: "sent w' = sent w @ (?q # new)" using n(2) s(3) by simp
    have b: "\<forall>q\<in>set (?q # new). sent_method q = m \<and> sent_base q = api_url (config c) \<and>
            sent_endpoint q = ep \<and> sent_headers q = headers s \<and>
            sent_json q = map_option dict_exclude_none rd"
      using n(3) ss c1(2) by simp
    have c: "?q # new \<noteq> []" by simp
    from a b c s(1,2) n(4,5,6) ss c1 show ?thesis by metis
  qed
qed

lemma retry_returns:
  "tries < max_tries \<Longrightarrow> gate_open (max_tries - tries) (rate_limit_semaphore c) \<Longrightarrow>
   \<exists>x. retry rm m ep rd env tries c w = Some x"
proof (induction rm m ep rd env tries c w rule: retry.induct)
  case (1 rm m ep rd env tries c w)
  from "1.prems"(1) obtain k where k: "max_tries - tries = Suc k"
    by (cases "max_tries - tries") auto
  with "1.prems"(2) have nz: "rate_limit_semaphore c \<noteq> 0"
    and go: "gate_open k (gate_round (rate_limit_semaphore c))" by auto
  from request_body_returns [OF nz] obtain r c1 w1 where
    b: "request_body rm m ep rd (env tries) c w = Some (r, c1, w1)" by blast
  show ?case
  proof (cases "gives_up (Suc tries) (r, c1, w1)")
    case True
    from retry_stop [where env = env and tries = tries, OF b True] show ?thesis by blast
  next
    case False
    then have lt: "Suc tries < max_tries"
      by (auto simp: gives_up_def split: sum.splits if_splits)
    from request_body_sent [OF b] have "rate_limit_semaphore c1 = gate_round (rate_limit_semaphore c)"
      by auto
    moreover from k have "max_tries - Suc tries = k" by arith
    ultimately have "gate_open (max_tries - Suc tries) (rate_limit_semaphore c1)"
      using go by simp
    from "1.IH" [OF b False refl refl lt] this [simplified]
      retry_step [where env = env and tries = tries, OF b False]
    show ?thesis by simp
  qed
qed

lemma request_returns:
  "gate_open max_tries (rate_limit_semaphore c) \<Longrightarrow>
   \<exists>r c' w'. request rm m ep rd env c w = Some (r, c', w')"
  using retry_returns [of 0 c rm m ep rd env w] by (auto simp: request_def max_tries_def)

lemma request_single:
  assumes sem: "rate_limit_semaphore c \<noteq> 0"
    and s: "session (ensure c) = Some s"
    and nr: "gives_up (Suc 0) (exchange rm s (outcome (env 0)), c1, w1)"
  shows "\<exists>c' w'. request rm m ep rd env c w = Some (exchange rm s (outcome (env 0)), c', w') \<and>
           attempts w w' = 1 \<and> backoff_sleeps w' = backoff_sleeps w"
proof -
  from request_body_returns [OF sem] obtain r c' w' where
    b: "request_body rm m ep rd (env 0) c w = Some (r, c', w')" by blast
  from request_body_sent [OF b] s have
    r: "r = exchange rm s (outcome (env 0))" and
    len: "length (sent w') = Suc (length (sent w))" and
    bs: "backoff_sleeps w' = backoff_sleeps w"
    by auto
  from nr r have g: "gives_up (Suc 0) (r, c', w')" by (simp add: gives_up_def)
  from retry_stop [where env = env and tries = 0, OF b g] r len bs show ?thesis
    by (auto simp: request_def attempts_def)
qed

lemma exchange_success:
  "exchange rm s out = Inr v \<Longrightarrow>
   \<exists>st hs d. out = Response st hs (JsonOk d) \<and> st < 400 \<and> rm d = Some v"
  by (auto simp: exchange_def except_clauses_def session_request_def response_json_def
      handle_response_def retry_after_of_def
      split: http_outcome.splits json_result.splits if_splits sum.splits option.splits error.splits)

lemma retry_success:
  "retry rm m ep rd env tries c w = Some (Inr v, c', w') \<Longrightarrow>
   \<exists>n st hs d. outcome (env n) = Response st hs (JsonOk d) \<and> st < 400 \<and> rm d = Some v"
proof (induction rm m ep rd env tries c w rule: retry.induct)
  case (1 rm m ep rd env tries c w)
  from "1.prems" show ?case
  proof (cases rule: retry_cases)
    case stop
    from request_body_sent [OF stop(1)] obtain s where
      "exchange rm s (outcome (env tries)) = Inr v" by auto
    from exchange_success [OF this] show ?thesis by blast
  next
    case (step r1 c1 w1)
    from "1.IH" [OF step(1) step(2) refl refl] step(3) show ?thesis by simp
  qed
qed

subsection \<open>Rounding a quotient to a double\<close>

lemma bit_length_upper: "n < 2 ^ bit_length n"
proof (induction n rule: bit_length.induct)
  case (1 n)
  show ?case
  proof (cases "n \<le> 0")
    case True
    then show ?thesis by (subst bit_length.simps) simp
  next
    case False
    from "1.IH" [OF False] have "n div 2 < 2 ^ bit_length (n div 2)" .
    then have "n < 2 * 2 ^ bit_length (n div 2)" by linarith
    with False show ?thesis by (subst bit_length.simps) simp
  qed
qed

lemma bit_length_lower: "0 < n \<Longrightarrow> 2 ^ bit_length n \<le> 2 * n"
proof (induction n rule: bit_length.induct)
  case (1 n)
  from "1.prems" have nz: "\<not> n \<le> 0" by simp
  show ?case
  proof (cases "0 < n div 2")
    case True
    from "1.IH" [OF nz True] have "2 ^ bit_length (n div 2) \<le> 2 * (n div 2)" .
    also have "\<dots> \<le> n" by linarith
    finally have "2 * 2 ^ bit_length (n div 2) \<le> 2 * n" by simp
    with nz show ?thesis by (subst bit_length.simps) simp
  next
    case False
    with "1.prems" have "n div 2 = 0" by linarith
    then have "bit_length (n div 2) = 0" by (simp add: bit_length.simps)
    with nz "1.prems" show ?thesis by (subst bit_length.simps) simp
  qed
qed

lemma binade_lower:
  assumes "0 < q"
  shows "2 powi (binade q - 1) \<le> q"
proof -
  obtain a b where ab: "quotient_of q = (a, b)" by (cases "quotient_of q") auto
  from quotient_of_denom_pos [OF ab] have b: "0 < b" .
  from quotient_of_div [OF ab] have q: "q = of_int a / of_int b" .
  with assms b have a: "0 < a" by (simp add: zero_less_divide_iff)
  let ?la = "bit_length a" and ?lb = "bit_length b"
  have le: "binade q \<le> int ?la - int ?lb"
    by (simp add: binade_def ab Let_def)
  have "(2::int) ^ ?la \<le> 2 * a" using a by (rule bit_length_lower)
  then have "(of_int ((2::int) ^ ?la) :: rat) \<le> of_int (2 * a)" by (simp only: of_int_le_iff)
  then have A: "(2::rat) ^ ?la \<le> 2 * of_int a" by simp
  have "b < 2 ^ ?lb" by (rule bit_length_upper)
  then have "(of_int b :: rat) < of_int (2 ^ ?lb)" by (simp only: of_int_less_iff)
  then have B: "(of_int b :: rat) \<le> 2 ^ ?lb" by simp
  have bp: "(0::rat) < of_int b" using b by simp
  have "(2::rat) powi (int ?la - int ?lb - 1) = 2 ^ ?la / 2 ^ ?lb / 2"
    by (simp add: power_int_diff)
  also have "\<dots> \<le> (2 * of_int a) / 2 ^ ?lb / 2"
  proof -
    have "(2::rat) ^ ?la / 2 ^ ?lb \<le> (2 * of_int a) / 2 ^ ?lb"
      by (rule divide_right_mono [OF A]) simp
    then show ?thesis by (rule divide_right_mono) simp
  qed
  also have "\<dots> = of_int a / 2 ^ ?lb" by simp
  also have "\<dots> \<le> of_int a / of_int b"
    using a B bp by (simp add: frac_le)
  finally have C: "(2::rat) powi (int ?la - int ?lb - 1) \<le> q" using q by simp
  have "(2::rat) powi (binade q - 1) \<le> 2 powi (int ?la - int ?lb - 1)"
    using le by (intro power_int_increasing) simp_all
  with C show ?thesis by simp
qed

lemma round_half_even_ge: "1 \<le> x \<Longrightarrow> 1 \<le> round_half_even x"
proof -
  assume "1 \<le> x"
  then have "1 \<le> \<lfloor>x\<rfloor>" by simp
  then show ?thesis by (simp add: round_half_even_def Let_def)
qed

lemma unit_le:
  assumes "1 / 60 \<le> q"
  shows "2 powi (max (binade q) (- 1022) - 52) \<le> q"
proof (cases "- 1022 \<le> binade q")
  case True
  have q0: "0 < q" using assms by simp
  have "(2::rat) powi (binade q - 52) \<le> 2 powi (binade q - 1)"
    by (intro power_int_increasing) simp_all
  also have "\<dots> \<le> q" using q0 by (rule binade_lower)
  finally show ?thesis using True by (simp add: max_def)
next
  case False
  have "(2::rat) powi (- 1074) \<le> 2 powi (- 6)"
    by (intro power_int_increasing) simp_all
  also have "\<dots> \<le> 1 / 60" by (simp add: power_int_minus)
  also have "\<dots> \<le> q" by (rule assms)
  finally show ?thesis using False by (simp add: max_def)
qed

lemma nearest_double_pos:
  assumes "1 / 60 \<le> q" and "nearest_double q = Some v"
  shows "0 < v"
proof -
  have q0: "0 < q" using assms(1) by simp
  let ?u = "(2::rat) powi (max (binade q) (- 1022) - 52)"
  have u: "0 < ?u" by simp
  have "1 \<le> q / ?u" using unit_le [OF assms(1)] u by (simp add: le_divide_eq)
  then have "1 \<le> round_half_even (q / ?u)" by (rule round_half_even_ge)
  then have r: "(0::rat) < of_int (round_half_even (q / ?u))" by simp
  have p: "0 < of_int (round_half_even (q / ?u)) * ?u" by (rule mult_pos_pos [OF r u])
  from assms(2) q0 have "v = of_int (round_half_even (q / ?u)) * ?u"
    by (simp add: nearest_double_def Let_def abs_of_pos split: if_splits)
  with p show ?thesis by simp
qed

lemma nearest_double_neg:
  assumes "q \<le> - (1 / 60)" and "nearest_double q = Some v"
  shows "v < 0"
proof -
  have q0: "q < 0" using assms(1) by simp
  have a: "1 / 60 \<le> \<bar>q\<bar>" using assms(1) by simp
  let ?u = "(2::rat) powi (max (binade \<bar>q\<bar>) (- 1022) - 52)"
  have u: "0 < ?u" by simp
  have "1 \<le> \<bar>q\<bar> / ?u" using unit_le [OF a] u by (simp add: le_divide_eq)
  then have "1 \<le> round_half_even (\<bar>q\<bar> / ?u)" by (rule round_half_even_ge)
  then have r: "(0::rat) < of_int (round_half_even (\<bar>q\<bar> / ?u))" by simp
  have p: "0 < of_int (round_half_even (\<bar>q\<bar> / ?u)) * ?u" by (rule mult_pos_pos [OF r u])
  from assms(2) q0 have "v = - (of_int (round_half_even (\<bar>q\<bar> / ?u)) * ?u)"
    by (simp add: nearest_double_def Let_def split: if_splits)
  with p show ?thesis by simp
qed

subsection \<open>Headers and request bodies\<close>

lemma retry_config:
  "retry rm m ep rd env tries c w = Some (r, c', w') \<Longrightarrow> config c' = config c"
  using retry_sent by blast

lemma drop_new: "sent w' = sent w @ new \<Longrightarrow> drop (length (sent w)) (sent w') = new"
  by simp

lemma started_ensure: "started c \<or> session_unusable c \<Longrightarrow> started (ensure c)"
  by (auto simp: started_def ensure_def start_def session_unusable_def)

lemma started_headers:
  "started c \<Longrightarrow> \<exists>s. session c = Some s \<and> \<not> closed s \<and> raise_for_status s \<and>
     map_of (headers s) ''Authorization'' = Some (''Bearer '' @ api_key (config c))"
  by (auto simp: started_def start_def session_unusable_def)

lemma started_same:
  "started c \<Longrightarrow> session c' = session c \<Longrightarrow> config c' = config c \<Longrightarrow>
   sdk_version c' = sdk_version c \<Longrightarrow> started c'"
  by (simp add: started_def start_def session_unusable_def)

lemma example_gate_round:
  "gate_round (7505999378950827 / 4503599627370496) = 7505999378950827 / 4503599627370496"
  by code_simp

lemma example_gate: "gate_open max_tries (rate_limit_semaphore example_client)"
  by (simp add: max_tries_def numeral_3_eq_3 example_client_def example_gate_round)

lemma example_unusable: "session_unusable example_client"
  by (simp add: session_unusable_def example_client_def)

lemma example_nonzero: "rate_limit_semaphore example_client \<noteq> 0"
  by (simp add: example_client_def)

lemma header_of_request:
  assumes "started c \<or> session_unusable c"
    and "request rm m ep rd env c w = Some (r, c', w')"
  shows "drop (length (sent w)) (sent w') \<noteq> [] \<and>
         (\<forall>q\<in>set (drop (length (sent w)) (sent w')).
            map_of (sent_headers q) ''Authorization'' = Some (''Bearer '' @ api_key (config c))) \<and>
         started c' \<and> config c' = config c"
proof -
  from assms(2) have rt: "retry rm m ep rd env 0 c w = Some (r, c', w')"
    by (simp add: request_def)
  from started_ensure [OF assms(1)] have se: "started (ensure c)" .
  from started_headers [OF se] obtain s where
    s: "session (ensure c) = Some s"
       "map_of (headers s) ''Authorization'' = Some (''Bearer '' @ api_key (config (ensure c)))"
    by blast
  have a: "map_of (headers s) ''Authorization'' = Some (''Bearer '' @ api_key (config c))"
    using s(2) by (simp only: ensure_fields)
  from retry_sent [OF rt] obtain s' new where
    n: "session (ensure c) = Some s'" "sent w' = sent w @ new" "new \<noteq> []"
       "\<forall>q\<in>set new. sent_headers q = headers s'"
       "session c' = Some s'" "config c' = config c" "sdk_version c' = sdk_version c"
    by blast
  from n(1) s(1) have ss: "s' = s" by simp
  have d: "drop (length (sent w)) (sent w') = new" using n(2) by (rule drop_new)
  have h: "\<forall>q\<in>set new. map_of (sent_headers q) ''Authorization'' =
             Some (''Bearer '' @ api_key (config c))"
    using n(4) a ss by simp
  have sc: "started c'"
    by (rule started_same [OF se]) (simp_all add: n s ss ensure_fields)
  show ?thesis unfolding d using n(3) h sc n(6) by blast
qed





lemma request_body_blocked:
  "rate_limit_semaphore c = 0 \<Longrightarrow> request_body rm m ep rd e c w = None"
  by (simp add: request_body_def enforce_rate_limit_def start_def Let_def)

lemma header_of_attempt:
  assumes "started c \<or> session_unusable c" and "rate_limit_semaphore c \<noteq> 0"
  shows "\<exists>r c' w' q. request_body rm m ep rd e c w = Some (r, c', w') \<and> sent w' = sent w @ [q] \<and>
           map_of (sent_headers q) ''Authorization'' = Some (''Bearer '' @ api_key (config c)) \<and>
           started c' \<and> config c' = config c"
proof -
  from request_body_returns [OF assms(2)] obtain r c' w' where
    b: "request_body rm m ep rd e c w = Some (r, c', w')" by blast
  from started_ensure [OF assms(1)] have se: "started (ensure c)" .
  from started_headers [OF se] obtain s where
    s: "session (ensure c) = Some s"
       "map_of (headers s) ''Authorization'' = Some (''Bearer '' @ api_key (config (ensure c)))"
    by blast
  have a: "map_of (headers s) ''Authorization'' = Some (''Bearer '' @ api_key (config c))"
    using s(2) by (simp only: ensure_fields)
  from request_body_sent [OF b] s(1) obtain q where
    q: "sent w' = sent w @ [q]" "sent_headers q = headers s"
    and c': "c' = (ensure c)\<lparr> last_request_time := later e,
                  rate_limit_semaphore := gate_round (rate_limit_semaphore c) \<rparr>"
    by auto
  have sc: "started c'"
    by (rule started_same [OF se]) (simp_all add: c')
  have cc: "config c' = config c" by (simp add: c' ensure_fields)
  from b q a sc cc show ?thesis by auto
qed

text \<open>
  C9: every request that the executor sends through a session created by \<open>start\<close>
  (for a client that has none, or a closed one, the executor calls \<open>start\<close> itself)
  carries the Authorization header \<^verbatim>\<open>Bearer\<close>, a space, and the configured API key.
  An attempt sends nothing when the gate is shut and otherwise exactly one request,
  with this header; a call that returns has sent at least one request, all with this
  header; in both cases the client is left with such a session again. The call does
  return when the gate lets its attempts pass.
\<close>

theorem authorization_header:
  assumes "started c \<or> session_unusable c"
  shows "(rate_limit_semaphore c = 0 \<longrightarrow> request_body rm m ep rd e c w = None) \<and>
         (rate_limit_semaphore c \<noteq> 0 \<longrightarrow>
            (\<exists>r c' w' q. request_body rm m ep rd e c w = Some (r, c', w') \<and>
               sent w' = sent w @ [q] \<and>
               map_of (sent_headers q) ''Authorization'' =
                 Some (''Bearer '' @ api_key (config c)) \<and>
               started c' \<and> config c' = config c)) \<and>
         (\<forall>r c' w'. request rm m ep rd env c w = Some (r, c', w') \<longrightarrow>
            drop (length (sent w)) (sent w') \<noteq> [] \<and>
            (\<forall>q\<in>set (drop (length (sent w)) (sent w')).
               map_of (sent_headers q) ''Authorization'' =
                 Some (''Bearer '' @ api_key (config c))) \<and>
            started c' \<and> config c' = config c) \<and>
         (gate_open max_tries (rate_limit_semaphore c) \<longrightarrow>
            (\<exists>r c' w'. request rm m ep rd env c w = Some (r, c', w')))"
  using request_body_blocked [of c rm m ep rd e w]
    header_of_attempt [OF assms, of rm m ep rd e w]
    header_of_request [OF assms, of rm m ep rd env w]
    request_returns [of c rm m ep rd env w]
  by blast

text \<open>The theorem at a concrete client, world and server.\<close>

theorem authorization_header_witness:
  "map_of (sent_headers (hd (sent (snd (snd (the
      (request dict_model ''GET'' ''fb/page/getInfo'' None
         (always (Response 200 [] (JsonOk (PDict [])))) example_client example_world)))))))
     ''Authorization'' = Some ''Bearer secret''"
proof -
  have u: "started example_client \<or> session_unusable example_client"
    using example_unusable by simp
  note t = authorization_header [where c = example_client and rm = dict_model
      and m = "''GET''" and ep = "''fb/page/getInfo''" and rd = None
      and env = "always (Response 200 [] (JsonOk (PDict [])))" and w = example_world, OF u]
  from t example_gate obtain r c' w' where
    R: "request dict_model ''GET'' ''fb/page/getInfo'' None
         (always (Response 200 [] (JsonOk (PDict [])))) example_client example_world =
        Some (r, c', w')" by blast
  from t R have "drop (length (sent example_world)) (sent w') \<noteq> []" and
    "\<forall>q\<in>set (drop (length (sent example_world)) (sent w')).
        map_of (sent_headers q) ''Authorization'' =
        Some (''Bearer '' @ api_key (config example_client))"
    by blast+
  then have "sent w' \<noteq> []" and
    "\<forall>q\<in>set (sent w'). map_of (sent_headers q) ''Authorization'' =
        Some (''Bearer '' @ api_key (config example_client))"
    by (simp_all add: example_world_def)
  then have "map_of (sent_headers (hd (sent w'))) ''Authorization'' =
        Some (''Bearer '' @ api_key (config example_client))"
    by simp
  moreover have "api_key (config example_client) = ''secret''"
    by (simp add: example_client_def example_config_def)
  ultimately have "map_of (sent_headers (hd (sent w'))) ''Authorization'' = Some ''Bearer secret''"
    by simp
  then show ?thesis by (simp add: R)
qed




subsection \<open>Classification of responses\<close>

lemma example_session:
  "\<exists>s. session (ensure example_client) = Some s \<and> raise_for_status s"
  by (simp add: ensure_def example_unusable start_def)

lemma exchange_raise_for_status:
  "raise_for_status s \<Longrightarrow> 400 \<le> st \<Longrightarrow>
   exchange rm s (Response st hs b) = Inl (ManyChatAPIError RequestFailed None None)"
  by (simp add: exchange_def except_clauses_def session_request_def)

lemma exchange_ok:
  "st < 400 \<Longrightarrow> b \<noteq> JSONDecodeError \<Longrightarrow>
   exchange rm s (Response st hs b) =
     (case b of
        JsonOk d \<Rightarrow> (case rm d of None \<Rightarrow> Inl ManyChatValidationError | Some v \<Rightarrow> Inr v)
      | _ \<Rightarrow> Inl (ManyChatAPIError RequestFailed None None))"
  by (cases b)
     (auto simp: exchange_def except_clauses_def session_request_def response_json_def
        handle_response_def split: option.splits)

lemma gives_up_final:
  "(case r of Inl e \<Rightarrow> \<not> retryable e | Inr v \<Rightarrow> True) \<Longrightarrow> gives_up n (r, c, w)"
  by (auto simp: gives_up_def split: sum.splits)

text \<open>
  C8, as the specification states it, fails: a response with status 200 whose body is
  not served as JSON cannot be parsed into the response shape, and the executor
  raises the generic API error, not a validation error.
\<close>

theorem non_json_body_is_api_error:
  "fst (the (request dict_model ''GET'' ''fb/page/getInfo'' None
       (always (Response 200 [] ContentTypeError)) example_client example_world)) =
   Inl (ManyChatAPIError RequestFailed None None)"
proof -
  from example_session obtain s where s: "session (ensure example_client) = Some s" by blast
  have ex: "exchange dict_model s (outcome (always (Response 200 [] ContentTypeError) 0)) =
      Inl (ManyChatAPIError RequestFailed None None)"
    by (simp add: always_def exchange_ok)
  have g: "gives_up (Suc 0) (exchange dict_model s
      (outcome (always (Response 200 [] ContentTypeError) 0)), example_client, example_world)"
    by (simp add: ex gives_up_def)
  from request_single [where env = "always (Response 200 [] ContentTypeError)"
      and m = "''GET''" and ep = "''fb/page/getInfo''" and rd = None and w = example_world,
      OF example_nonzero s g] ex
  show ?thesis by auto
qed

text \<open>
  C8, amended: for a response with a status below 400, a body that is a JSON document
  which the response model rejects is surfaced as a validation error, a body that is
  not served as JSON as the generic API error, in both cases after exactly one attempt;
  a result is returned only when the model accepts the document, and it is the parsed
  value.
\<close>

theorem success_status_body:
  assumes "rate_limit_semaphore c \<noteq> 0"
    and "outcome (env 0) = Response st hs b" and "st < 400" and "b \<noteq> JSONDecodeError"
  shows "\<exists>c' w'. request rm m ep rd env c w =
           Some (case b of
                   JsonOk d \<Rightarrow> (case rm d of None \<Rightarrow> Inl ManyChatValidationError | Some v \<Rightarrow> Inr v)
                 | _ \<Rightarrow> Inl (ManyChatAPIError RequestFailed None None), c', w') \<and>
           attempts w w' = 1"
proof -
  obtain s where s: "session (ensure c) = Some s" using ensure_session by blast
  let ?r = "case b of
              JsonOk d \<Rightarrow> (case rm d of None \<Rightarrow> Inl ManyChatValidationError | Some v \<Rightarrow> Inr v)
            | _ \<Rightarrow> Inl (ManyChatAPIError RequestFailed None None)"
  have ex: "exchange rm s (outcome (env 0)) = ?r"
    using exchange_ok [OF assms(3,4)] assms(2) by simp
  have g: "gives_up (Suc 0) (exchange rm s (outcome (env 0)), c, w)"
    unfolding ex by (rule gives_up_final) (auto split: json_result.splits option.splits)
  from request_single [where env = env and m = m and ep = ep and rd = rd and w = w,
      OF assms(1) s g] ex
  show ?thesis by auto
qed

text \<open>The theorem at a concrete client, world and server.\<close>

theorem success_status_body_witness:
  "fst (the (request dict_model ''GET'' ''fb/page/getInfo'' None
       (always (Response 200 [] (JsonOk (PList [])))) example_client example_world)) =
   Inl ManyChatValidationError"
proof -
  have o: "outcome (always (Response 200 [] (JsonOk (PList []))) 0) =
      Response 200 [] (JsonOk (PList []))"
    by (simp add: always_def)
  have l: "(200::int) < 400" and b: "JsonOk (PList []) \<noteq> JSONDecodeError" by simp_all
  from success_status_body [where env = "always (Response 200 [] (JsonOk (PList [])))"
      and rm = dict_model and m = "''GET''" and ep = "''fb/page/getInfo''" and rd = None
      and w = example_world, OF example_nonzero o l b]
  show ?thesis by (auto simp: dict_model_def)
qed

text \<open>
  C3, on the code: through a session created by \<open>start\<close> a response with status 401
  is answered after exactly one attempt, but with the generic API error of a failed
  request; the branch that raises the authentication error is not reached, because
  the session raises for the status first.
\<close>

theorem unauthorized_is_api_error:
  assumes "started c \<or> session_unusable c" and "rate_limit_semaphore c \<noteq> 0"
    and "outcome (env 0) = Response 401 hs b"
  shows "\<exists>c' w'. request rm m ep rd env c w =
            Some (Inl (ManyChatAPIError RequestFailed None None), c', w') \<and>
          attempts w w' = 1"
proof -
  from started_headers [OF started_ensure [OF assms(1)]] obtain s where
    s: "session (ensure c) = Some s" "raise_for_status s" by blast
  have ex: "exchange rm s (outcome (env 0)) = Inl (ManyChatAPIError RequestFailed None None)"
    using exchange_raise_for_status [OF s(2), of 401] assms(3) by simp
  have g: "gives_up (Suc 0) (exchange rm s (outcome (env 0)), c, w)"
    by (simp add: ex gives_up_def)
  from request_single [where env = env and m = m and ep = ep and rd = rd and w = w,
      OF assms(2) s(1) g] ex
  show ?thesis by auto
qed

text \<open>The theorem at a concrete client, world and server.\<close>

theorem unauthorized_is_api_error_witness:
  "fst (the (request dict_model ''GET'' ''fb/page/getInfo'' None
       (always (Response 401 [] (JsonOk (PDict [])))) example_client example_world)) =
   Inl (ManyChatAPIError RequestFailed None None)"
proof -
  have o: "outcome (always (Response 401 [] (JsonOk (PDict []))) 0) =
      Response 401 [] (JsonOk (PDict []))"
    by (simp add: always_def)
  have u: "started example_client \<or> session_unusable example_client"
    using example_unusable by simp
  from unauthorized_is_api_error [where env = "always (Response 401 [] (JsonOk (PDict [])))"
      and rm = dict_model and m = "''GET''" and ep = "''fb/page/getInfo''" and rd = None
      and w = example_world, OF u example_nonzero o]
  show ?thesis by auto
qed

lemma exchange_500:
  "b \<noteq> JSONDecodeError \<Longrightarrow>
   \<exists>cause sc resp. exchange rm s (Response 500 hs b) = Inl (ManyChatAPIError cause sc resp)"
  by (cases b) (auto simp: exchange_def except_clauses_def session_request_def response_json_def
      handle_response_def)

text \<open>
  C1, as the specification states it, fails: with status 500 on every attempt and a
  configured retry count of 3, the executor makes one attempt and raises the generic
  API error.
\<close>

theorem server_error_not_retried:
  "fst (the (request dict_model ''GET'' ''fb/page/getInfo'' None
       (always (Response 500 [] (JsonOk PNone))) example_client example_world)) =
     Inl (ManyChatAPIError RequestFailed None None) \<and>
   attempts example_world (snd (snd (the (request dict_model ''GET'' ''fb/page/getInfo'' None
       (always (Response 500 [] (JsonOk PNone))) example_client example_world)))) = 1 \<and>
   max_retries (config example_client) = 3"
proof -
  from example_session obtain s where
    s: "session (ensure example_client) = Some s" "raise_for_status s" by blast
  have ex: "exchange dict_model s (outcome (always (Response 500 [] (JsonOk PNone)) 0)) =
      Inl (ManyChatAPIError RequestFailed None None)"
    using exchange_raise_for_status [OF s(2), of 500] by (simp add: always_def)
  have g: "gives_up (Suc 0) (exchange dict_model s
      (outcome (always (Response 500 [] (JsonOk PNone)) 0)), example_client, example_world)"
    by (simp add: ex gives_up_def)
  have m: "max_retries (config example_client) = 3"
    by (simp add: example_client_def example_config_def)
  from request_single [where env = "always (Response 500 [] (JsonOk PNone))"
      and m = "''GET''" and ep = "''fb/page/getInfo''" and rd = None and w = example_world,
      OF example_nonzero s(1) g] ex m
  show ?thesis by auto
qed

text \<open>
  C1, amended: when the server answers the first attempt with status 500, the
  executor makes exactly one attempt and raises a generic API error; it takes no
  backoff sleep, whatever the configured retry count.
\<close>

theorem server_error_single_attempt:
  assumes "rate_limit_semaphore c \<noteq> 0" and "outcome (env 0) = Response 500 hs b"
    and "b \<noteq> JSONDecodeError"
  shows "\<exists>cause sc resp c' w'. request rm m ep rd env c w =
            Some (Inl (ManyChatAPIError cause sc resp), c', w') \<and>
          attempts w w' = 1 \<and> backoff_sleeps w' = backoff_sleeps w"
proof -
  obtain s where s: "session (ensure c) = Some s" using ensure_session by blast
  from exchange_500 [OF assms(3), of rm s hs] assms(2) obtain cause sc resp where
    ex: "exchange rm s (outcome (env 0)) = Inl (ManyChatAPIError cause sc resp)" by auto
  have g: "gives_up (Suc 0) (exchange rm s (outcome (env 0)), c, w)"
    by (simp add: ex gives_up_def)
  from request_single [where env = env and m = m and ep = ep and rd = rd and w = w,
      OF assms(1) s g] ex
  show ?thesis by auto
qed

text \<open>The theorem at a concrete client, world and server.\<close>

theorem server_error_single_attempt_witness:
  "attempts example_world (snd (snd (the (request dict_model ''GET'' ''fb/page/getInfo'' None
       (always (Response 500 [] (JsonOk (PDict [])))) example_client example_world)))) = 1 \<and>
   backoff_sleeps (snd (snd (the (request dict_model ''GET'' ''fb/page/getInfo'' None
       (always (Response 500 [] (JsonOk (PDict [])))) example_client example_world)))) = []"
proof -
  have o: "outcome (always (Response 500 [] (JsonOk (PDict []))) 0) =
      Response 500 [] (JsonOk (PDict []))"
    by (simp add: always_def)
  have b: "JsonOk (PDict []) \<noteq> JSONDecodeError" by simp
  have e: "backoff_sleeps example_world = []" by (simp add: example_world_def)
  from server_error_single_attempt [where env = "always (Response 500 [] (JsonOk (PDict [])))"
      and rm = dict_model and m = "''GET''" and ep = "''fb/page/getInfo''" and rd = None
      and w = example_world, OF example_nonzero o b] e
  show ?thesis by auto
qed

subsection \<open>Rate-limit responses and endpoint functions\<close>







text \<open>
  C2: each of \<open>get_tags\<close>, \<open>get_page_info\<close> and \<open>add_tag_by_name\<close> fails with an
  attribute error for the name \<^verbatim>\<open>request\<close>, for every client and every argument,
  and leaves the world as it was: no request is sent.
\<close>

theorem endpoints_attribute_error:
  "get_tags rm env c w = Some (Inl (AttributeError ''request''), c, w) \<and>
   get_page_info rm env c w = Some (Inl (AttributeError ''request''), c, w) \<and>
   add_tag_by_name rm env c w subscriber_id tag_name = Some (Inl (AttributeError ''request''), c, w)"
  by (simp add: get_tags_def get_page_info_def add_tag_by_name_def call_method_def getattr_def
      ManyChatClient_attributes_def)

text \<open>The theorem at a concrete client, world and server.\<close>

theorem endpoints_attribute_error_witness:
  "get_tags Some (always (Response 200 [] (JsonOk PNone))) example_client example_world =
     Some (Inl (AttributeError ''request''), example_client, example_world) \<and>
   sent example_world = []"
  using endpoints_attribute_error [of Some "always (Response 200 [] (JsonOk PNone))"
      example_client example_world]
  by (simp add: example_world_def)

subsection \<open>Configuration\<close>

lemma optional_Nil: "optional name x = [] \<longleftrightarrow> x \<noteq> Invalid"
  by (cases x) auto

lemma required_Nil: "required name x = [] \<longleftrightarrow> x \<noteq> Absent \<and> x \<noteq> Invalid"
  by (cases x) auto

lemma rejected_fields_Nil:
  "rejected_fields i = [] \<longleftrightarrow> in_api_key i \<noteq> Absent \<and> \<not> uncoercible i"
  by (simp add: rejected_fields_def uncoercible_def optional_Nil required_Nil)

text \<open>
  C5, as the specification states it, fails: construction succeeds with an empty API
  key, a timeout of 0, a retry count of -1 and a rate limit of 0, since the class
  declares no validator.
\<close>

theorem config_accepts_invalid:
  "ManyChatConfig_init ((default_settings '''')\<lparr> in_timeout := Valid 0,
       in_max_retries := Valid (- 1), in_rate_limit := Valid 0 \<rparr>) =
   Inr \<lparr> api_key = '''', api_version = ''v1'', base_url = ''https://api.manychat.com/fb'',
       timeout = 0, max_retries = - 1, retry_delay = 1, rate_limit = 0, rate_window = 60,
       log_level = ''INFO'', debug = False, webhook_secret = None, cache_ttl = 300 \<rparr>"
  by (simp add: ManyChatConfig_init_def default_settings_def rejected_fields_def)

text \<open>
  C5, amended: construction fails exactly when the API key is not supplied or some
  supplied value cannot be coerced to the type of its field; otherwise it succeeds,
  every one of the twelve fields holding the value supplied (whatever its sign, and an
  empty key as well) or its default. The configuration is read-only afterwards in
  that no operation of the client writes to it: \<open>start\<close>, \<open>close\<close>, the rate limiter
  and the request executor leave it as it was, and the executor does return when
  the gate lets its attempts pass.
\<close>

theorem config_construction:
  "isl (ManyChatConfig_init i) = (in_api_key i = Absent \<or> uncoercible i) \<and>
   (\<forall>k. in_api_key i = Valid k \<and> \<not> uncoercible i \<longrightarrow>
      ManyChatConfig_init i = Inr \<lparr>
          api_key = k,
          api_version = or_default (in_api_version i) ''v1'',
          base_url = or_default (in_base_url i) ''https://api.manychat.com/fb'',
          timeout = or_default (in_timeout i) 30,
          max_retries = or_default (in_max_retries i) 3,
          retry_delay = or_default (in_retry_delay i) 1,
          rate_limit = or_default (in_rate_limit i) 100,
          rate_window = or_default (in_rate_window i) 60,
          log_level = or_default (in_log_level i) ''INFO'',
          debug = or_default (in_debug i) False,
          webhook_secret = or_default (in_webhook_secret i) None,
          cache_ttl = or_default (in_cache_ttl i) 300 \<rparr>) \<and>
   config (start c) = config c \<and> config (close c) = config c \<and>
   (\<forall>t1 t2 d c'. enforce_rate_limit t1 t2 c = Some (d, c') \<longrightarrow> config c' = config c) \<and>
   (\<forall>r c' w'. request rm m ep rd env c w = Some (r, c', w') \<longrightarrow> config c' = config c) \<and>
   (gate_open max_tries (rate_limit_semaphore c) \<longrightarrow>
      (\<exists>r c' w'. request rm m ep rd env c w = Some (r, c', w') \<and> config c' = config c))"
proof -
  have a: "isl (ManyChatConfig_init i) = (in_api_key i = Absent \<or> uncoercible i)"
    using rejected_fields_Nil [of i] by (auto simp: ManyChatConfig_init_def)
  have b: "\<forall>k. in_api_key i = Valid k \<and> \<not> uncoercible i \<longrightarrow>
      ManyChatConfig_init i = Inr \<lparr>
          api_key = k,
          api_version = or_default (in_api_version i) ''v1'',
          base_url = or_default (in_base_url i) ''https://api.manychat.com/fb'',
          timeout = or_default (in_timeout i) 30,
          max_retries = or_default (in_max_retries i) 3,
          retry_delay = or_default (in_retry_delay i) 1,
          rate_limit = or_default (in_rate_limit i) 100,
          rate_window = or_default (in_rate_window i) 60,
          log_level = or_default (in_log_level i) ''INFO'',
          debug = or_default (in_debug i) False,
          webhook_secret = or_default (in_webhook_secret i) None,
          cache_ttl = or_default (in_cache_ttl i) 300 \<rparr>"
    using rejected_fields_Nil [of i] by (simp add: ManyChatConfig_init_def)
  have e: "\<forall>t1 t2 d c'. enforce_rate_limit t1 t2 c = Some (d, c') \<longrightarrow> config c' = config c"
    by (auto dest!: enforce_frame)
  have f: "\<forall>r c' w'. request rm m ep rd env c w = Some (r, c', w') \<longrightarrow> config c' = config c"
    by (auto simp: request_def dest: retry_config)
  have g: "gate_open max_tries (rate_limit_semaphore c) \<longrightarrow>
      (\<exists>r c' w'. request rm m ep rd env c w = Some (r, c', w') \<and> config c' = config c)"
    using request_returns [of c rm m ep rd env w] f by blast
  from a b e f g show ?thesis
    by (simp only: start_config close_config simp_thms)
qed

text \<open>The theorem at a concrete client, world and server.\<close>

theorem config_construction_witness:
  "ManyChatConfig_init (default_settings ''secret'') = Inr example_config \<and>
   config (fst (snd (the (request dict_model ''GET'' ''fb/page/getInfo'' None
     (always (Response 200 [] (JsonOk (PDict [])))) example_client example_world)))) =
   example_config"
proof -
  have k: "in_api_key (default_settings ''secret'') = Valid ''secret'' \<and>
      \<not> uncoercible (default_settings ''secret'')"
    by (simp add: default_settings_def uncoercible_def)
  have cc: "config example_client = example_config" by (simp add: example_client_def)
  from config_construction [of "default_settings ''secret''" example_client dict_model
      "''GET''" "''fb/page/getInfo''" None "always (Response 200 [] (JsonOk (PDict [])))"
      example_world]
  have 1: "\<forall>k. in_api_key (default_settings ''secret'') = Valid k \<and>
        \<not> uncoercible (default_settings ''secret'') \<longrightarrow>
      ManyChatConfig_init (default_settings ''secret'') = Inr \<lparr>
          api_key = k,
          api_version = or_default (in_api_version (default_settings ''secret'')) ''v1'',
          base_url = or_default (in_base_url (default_settings ''secret'')) ''https://api.manychat.com/fb'',
          timeout = or_default (in_timeout (default_settings ''secret'')) 30,
          max_retries = or_default (in_max_retries (default_settings ''secret'')) 3,
          retry_delay = or_default (in_retry_delay (default_settings ''secret'')) 1,
          rate_limit = or_default (in_rate_limit (default_settings ''secret'')) 100,
          rate_window = or_default (in_rate_window (default_settings ''secret'')) 60,
          log_level = or_default (in_log_level (default_settings ''secret'')) ''INFO'',
          debug = or_default (in_debug (default_settings ''secret'')) False,
          webhook_secret = or_default (in_webhook_secret (default_settings ''secret'')) None,
          cache_ttl = or_default (in_cache_ttl (default_settings ''secret'')) 300 \<rparr>"
    and 2: "gate_open max_tries (rate_limit_semaphore example_client) \<longrightarrow>
      (\<exists>r c' w'. request dict_model ''GET'' ''fb/page/getInfo'' None
          (always (Response 200 [] (JsonOk (PDict [])))) example_client example_world =
          Some (r, c', w') \<and> config c' = config example_client)"
    by blast+
  from 1 k have A: "ManyChatConfig_init (default_settings ''secret'') = Inr example_config"
    by (simp add: default_settings_def example_config_def)
  from 2 example_gate cc have B: "config (fst (snd (the (request dict_model ''GET''
      ''fb/page/getInfo'' None (always (Response 200 [] (JsonOk (PDict []))))
      example_client example_world)))) = example_config"
    by auto
  from A B show ?thesis by simp
qed

subsection \<open>Admission gate\<close>

lemma example_quotient: "nearest_double (100 / 60) = Some (7505999378950827 / 4503599627370496)"
  by code_simp

lemma limit_quotient_pos: "0 < n \<Longrightarrow> 1 / 60 \<le> (of_int n :: rat) / 60"
proof -
  assume "0 < n"
  then have "1 \<le> n" by simp
  then have "(1::rat) \<le> of_int n" by (simp only: of_int_1_le_iff)
  then show ?thesis by simp
qed

lemma limit_quotient_neg: "n < 0 \<Longrightarrow> (of_int n :: rat) / 60 \<le> - (1 / 60)"
proof -
  assume "n < 0"
  then have "n \<le> - 1" by simp
  then have "(of_int n :: rat) \<le> of_int (- 1)" by (simp only: of_int_le_iff)
  then show ?thesis by simp
qed

lemma init_source_error:
  "(case cfg of Some c \<Rightarrow> Inr c | None \<Rightarrow> from_env) = Inl e \<Longrightarrow>
   ManyChatClient_init ver from_env cfg = Inl e"
  by (simp add: ManyChatClient_init_def)

lemma init_success_iff:
  assumes "(case cfg of Some c \<Rightarrow> Inr c | None \<Rightarrow> from_env) = Inr conf"
  shows "ManyChatClient_init ver from_env cfg = Inr c \<longleftrightarrow>
         0 \<le> rate_limit conf \<and>
         (\<exists>v. nearest_double (of_int (rate_limit conf) / 60) = Some v \<and>
              c = \<lparr> config = conf, session = None, rate_limit_semaphore = v,
                    last_request_time = 0, sdk_version = ver \<rparr>)"
proof (cases "nearest_double (of_int (rate_limit conf) / 60)")
  case None
  with assms show ?thesis by (simp add: ManyChatClient_init_def int_truediv_def)
next
  case (Some v)
  have sign: "0 \<le> rate_limit conf \<longleftrightarrow> \<not> v < 0"
  proof (cases "rate_limit conf < 0")
    case True
    from nearest_double_neg [OF limit_quotient_neg [OF True] Some] True show ?thesis by simp
  next
    case False
    show ?thesis
    proof (cases "rate_limit conf = 0")
      case True
      with Some show ?thesis by (simp add: nearest_double_def)
    next
      case nz: False
      with False have "0 < rate_limit conf" by simp
      from nearest_double_pos [OF limit_quotient_pos [OF this] Some] False show ?thesis by simp
    qed
  qed
  from assms Some sign show ?thesis
    by (auto simp: ManyChatClient_init_def int_truediv_def Semaphore_def)
qed

text \<open>
  C6, as the specification states it, fails: for the default limit of 100 requests a
  minute the semaphore is created with the float 1.6666666666666667, while the
  ceiling of 100/60 is 2.
\<close>

theorem semaphore_not_ceiling:
  "ManyChatClient_init ''0.1.0'' (Inl (SettingsError [''api_key''])) (Some example_config) =
     Inr example_client \<and>
   rate_limit_semaphore example_client = 7505999378950827 / 4503599627370496 \<and>
   of_int \<lceil>(of_int (rate_limit example_config) :: rat) / 60\<rceil> = (2 :: rat)"
proof -
  have c: "\<lceil>(100::rat) / 60\<rceil> = 2" by (rule ceiling_unique) simp_all
  have "ManyChatClient_init ''0.1.0'' (Inl (SettingsError [''api_key''])) (Some example_config) =
     Inr example_client"
    using example_quotient
    by (simp add: ManyChatClient_init_def int_truediv_def Semaphore_def example_client_def
        example_config_def)
  with c show ?thesis by (simp add: example_client_def example_config_def)
qed

text \<open>
  C6, amended: whether the configuration is passed in or loaded from the environment,
  the semaphore is created with the float quotient \<^verbatim>\<open>rate_limit / 60\<close> as it is, no
  ceiling taken. Construction fails with the error of the settings when they cannot
  be loaded; otherwise it succeeds exactly when the limit is not negative and the
  quotient is in the range of a double, and the value of the semaphore is then the
  double nearest to the exact quotient: 0 for a limit of 0, and positive for every
  positive limit.
\<close>

theorem gate_value:
  "(\<forall>e. (case cfg of Some c \<Rightarrow> Inr c | None \<Rightarrow> from_env) = Inl e \<longrightarrow>
      ManyChatClient_init ver from_env cfg = Inl e) \<and>
   (\<forall>conf. (case cfg of Some c \<Rightarrow> Inr c | None \<Rightarrow> from_env) = Inr conf \<longrightarrow>
      (\<forall>c. ManyChatClient_init ver from_env cfg = Inr c \<longleftrightarrow>
         0 \<le> rate_limit conf \<and>
         (\<exists>v. nearest_double (of_int (rate_limit conf) / 60) = Some v \<and>
              c = \<lparr> config = conf, session = None, rate_limit_semaphore = v,
                    last_request_time = 0, sdk_version = ver \<rparr>)) \<and>
      (rate_limit conf = 0 \<longrightarrow>
         ManyChatClient_init ver from_env cfg =
           Inr \<lparr> config = conf, session = None, rate_limit_semaphore = 0,
                 last_request_time = 0, sdk_version = ver \<rparr>) \<and>
      (\<forall>c. 0 < rate_limit conf \<and> ManyChatClient_init ver from_env cfg = Inr c \<longrightarrow>
         0 < rate_limit_semaphore c))"
proof (intro conjI allI impI)
  fix e assume "(case cfg of Some c \<Rightarrow> Inr c | None \<Rightarrow> from_env) = Inl e"
  then show "ManyChatClient_init ver from_env cfg = Inl e" by (rule init_source_error)
next
  fix conf c
  assume s: "(case cfg of Some c \<Rightarrow> Inr c | None \<Rightarrow> from_env) = Inr conf"
  show "ManyChatClient_init ver from_env cfg = Inr c \<longleftrightarrow>
         0 \<le> rate_limit conf \<and>
         (\<exists>v. nearest_double (of_int (rate_limit conf) / 60) = Some v \<and>
              c = \<lparr> config = conf, session = None, rate_limit_semaphore = v,
                    last_request_time = 0, sdk_version = ver \<rparr>)"
    by (rule init_success_iff [OF s])
next
  fix conf
  assume s: "(case cfg of Some c \<Rightarrow> Inr c | None \<Rightarrow> from_env) = Inr conf"
    and z: "rate_limit conf = 0"
  have "nearest_double (of_int (rate_limit conf) / 60) = Some 0"
    using z by (simp add: nearest_double_def)
  with z show "ManyChatClient_init ver from_env cfg =
           Inr \<lparr> config = conf, session = None, rate_limit_semaphore = 0,
                 last_request_time = 0, sdk_version = ver \<rparr>"
    by (subst init_success_iff [OF s]) simp
next
  fix conf c
  assume s: "(case cfg of Some c \<Rightarrow> Inr c | None \<Rightarrow> from_env) = Inr conf"
    and p: "0 < rate_limit conf \<and> ManyChatClient_init ver from_env cfg = Inr c"
  from p init_success_iff [OF s, of ver c] obtain v where
    v: "nearest_double (of_int (rate_limit conf) / 60) = Some v" "rate_limit_semaphore c = v"
    by auto
  from p have "0 < rate_limit conf" by simp
  from nearest_double_pos [OF limit_quotient_pos [OF this] v(1)] v(2)
  show "0 < rate_limit_semaphore c" by simp
qed

text \<open>The theorem at a concrete client, world and server.\<close>

theorem gate_value_witness:
  "ManyChatClient_init ''0.1.0'' (Inl (SettingsError [''api_key''])) (Some example_config) =
     Inr example_client \<and>
   ManyChatClient_init ''0.1.0'' (Inr example_config) None = Inr example_client \<and>
   0 < rate_limit_semaphore example_client"
proof -
  have q: "nearest_double (of_int (rate_limit example_config) / 60) =
      Some (7505999378950827 / 4503599627370496)"
    using example_quotient by (simp add: example_config_def)
  have r: "0 \<le> rate_limit example_config" "0 < rate_limit example_config"
    by (simp_all add: example_config_def)
  have c: "example_client = \<lparr> config = example_config, session = None,
      rate_limit_semaphore = 7505999378950827 / 4503599627370496,
      last_request_time = 0, sdk_version = ''0.1.0'' \<rparr>"
    by (simp add: example_client_def)
  from gate_value [where cfg = "Some example_config" and from_env = "Inl (SettingsError [''api_key''])"
      and ver = "''0.1.0''"]
  have 1: "ManyChatClient_init ''0.1.0'' (Inl (SettingsError [''api_key''])) (Some example_config) =
      Inr example_client \<longleftrightarrow>
      0 \<le> rate_limit example_config \<and>
      (\<exists>v. nearest_double (of_int (rate_limit example_config) / 60) = Some v \<and>
           example_client = \<lparr> config = example_config, session = None, rate_limit_semaphore = v,
                    last_request_time = 0, sdk_version = ''0.1.0'' \<rparr>)"
    and 2: "\<forall>c. 0 < rate_limit example_config \<and>
        ManyChatClient_init ''0.1.0'' (Inl (SettingsError [''api_key''])) (Some example_config) = Inr c \<longrightarrow>
        0 < rate_limit_semaphore c"
    by simp_all
  from gate_value [where cfg = None and from_env = "Inr example_config" and ver = "''0.1.0''"]
  have 3: "ManyChatClient_init ''0.1.0'' (Inr example_config) None = Inr example_client \<longleftrightarrow>
      0 \<le> rate_limit example_config \<and>
      (\<exists>v. nearest_double (of_int (rate_limit example_config) / 60) = Some v \<and>
           example_client = \<lparr> config = example_config, session = None, rate_limit_semaphore = v,
                    last_request_time = 0, sdk_version = ''0.1.0'' \<rparr>)"
    by simp
  from q r(1) c have rhs: "0 \<le> rate_limit example_config \<and>
      (\<exists>v. nearest_double (of_int (rate_limit example_config) / 60) = Some v \<and>
           example_client = \<lparr> config = example_config, session = None, rate_limit_semaphore = v,
                    last_request_time = 0, sdk_version = ''0.1.0'' \<rparr>)"
    by blast
  from 1 rhs have A: "ManyChatClient_init ''0.1.0'' (Inl (SettingsError [''api_key'']))
      (Some example_config) = Inr example_client" by blast
  from 3 rhs have B: "ManyChatClient_init ''0.1.0'' (Inr example_config) None = Inr example_client"
    by blast
  from 2 r(2) A have C: "0 < rate_limit_semaphore example_client" by blast
  from A B C show ?thesis by blast
qed

end
